theory Spec2Isabelle
  imports Complex_Main "HOL-Library.Product_Lexorder"
begin

section \<open>Strings\<close>

text \<open>
  A Python \<open>str\<close> is a sequence of Unicode code points, and the code under study tests
  code points numerically (\<open>ord(char) < 32\<close>, the surrogate range), so a string is a list
  of code points. \<open>ustr\<close> turns an ASCII literal into such a list.
\<close>

type_synonym pystr = "nat list"

definition ustr :: "string \<Rightarrow> pystr" where
  "ustr s = map of_char s"

text \<open>
  The code points for which \<open>str.isspace\<close> holds; \<open>str.strip()\<close> and the class \<open>\s\<close> of
  \<open>re\<close> (on \<open>str\<close> patterns) use the same table.
\<close>

definition is_space :: "nat \<Rightarrow> bool" where
  "is_space c \<longleftrightarrow>
     (9 \<le> c \<and> c \<le> 13) \<or> (28 \<le> c \<and> c \<le> 32) \<or> c = 133 \<or> c = 160 \<or> c = 5760 \<or>
     (8192 \<le> c \<and> c \<le> 8202) \<or> c = 8232 \<or> c = 8233 \<or> c = 8239 \<or> c = 8287 \<or> c = 12288"

text \<open>\<open>s.strip()\<close>: leading and trailing whitespace removed.\<close>

definition rstrip :: "pystr \<Rightarrow> pystr" where
  "rstrip s = rev (dropWhile is_space (rev s))"

definition strip :: "pystr \<Rightarrow> pystr" where
  "strip s = rstrip (dropWhile is_space s)"

text \<open>\<open>s.strip('_')\<close>: leading and trailing occurrences of one character removed.\<close>

definition strip_char :: "nat \<Rightarrow> pystr \<Rightarrow> pystr" where
  "strip_char c s = rev (dropWhile (\<lambda>x. x = c) (rev (dropWhile (\<lambda>x. x = c) s)))"

text \<open>
  \<open>re.sub(r'\s+', ' ', s)\<close>: every maximal run of whitespace becomes one space (U+0020);
  \<open>in_run\<close> says that the character before was whitespace.
\<close>

fun collapse_ws_from :: "bool \<Rightarrow> pystr \<Rightarrow> pystr" where
  "collapse_ws_from in_run [] = []"
| "collapse_ws_from in_run (c # cs) =
     (if is_space c
      then (if in_run then collapse_ws_from True cs else 32 # collapse_ws_from True cs)
      else c # collapse_ws_from False cs)"

definition collapse_ws :: "pystr \<Rightarrow> pystr" where
  "collapse_ws s = collapse_ws_from False s"

text \<open>The decimal numeral of a natural number, as an f-string prints it.\<close>

fun show_nat :: "nat \<Rightarrow> pystr" where
  "show_nat n = (if n < 10 then [48 + n] else show_nat (n div 10) @ [48 + n mod 10])"

declare show_nat.simps [simp del]

section \<open>Table grids: \<open>_clean_table_data\<close> and \<open>_optimize_table_structure\<close>\<close>

text \<open>
  A raw grid is what the table detector returns: rows of cells, a cell being a string or
  \<open>None\<close>. \<open>_clean_table_data\<close> skips empty rows, strips every cell, drops the cells
  that are \<open>None\<close> or blank, and drops the rows left without a cell.
\<close>

fun clean_row :: "pystr option list \<Rightarrow> pystr list" where
  "clean_row [] = []"
| "clean_row (cell # cells) =
     (case cell of
        None \<Rightarrow> clean_row cells
      | Some s \<Rightarrow> (if strip s \<noteq> [] then strip s # clean_row cells else clean_row cells))"

fun clean_table_data :: "pystr option list list \<Rightarrow> pystr list list" where
  "clean_table_data [] = []"
| "clean_table_data (row # rows) =
     (if row = [] then clean_table_data rows
      else if clean_row row \<noteq> [] then clean_row row # clean_table_data rows
      else clean_table_data rows)"

text \<open>
  The dictionary \<open>_optimize_table_structure\<close> returns has a \<open>"type"\<close> entry and, depending
  on it, the entries \<open>"structure"\<close>, \<open>"data"\<close>, \<open>"headers"\<close> and \<open>"rows"\<close>: one constructor
  per shape of dictionary, \<open>sd_type\<close> reading the \<open>"type"\<close> entry.
\<close>

record kv_pair =
  key :: pystr
  val :: pystr

datatype structured_data =
    Empty_table
  | Key_value pystr "kv_pair list"
  | Structured_table pystr "pystr list" "pystr list list"
  | Single_row pystr "pystr list"
  | Unknown_table "pystr list list"

fun sd_type :: "structured_data \<Rightarrow> pystr" where
  "sd_type Empty_table = ustr ''empty''"
| "sd_type (Key_value _ _) = ustr ''key_value''"
| "sd_type (Structured_table _ _ _) = ustr ''structured_table''"
| "sd_type (Single_row _ _) = ustr ''single_row''"
| "sd_type (Unknown_table _) = ustr ''unknown''"

text \<open>\<open>max(len(row) for row in raw_data)\<close>, called on a grid that has a row.\<close>

definition max_cols :: "'a list list \<Rightarrow> nat" where
  "max_cols rows = foldr max (map length rows) 0"

text \<open>The loop that builds \<open>key_value_pairs\<close>: a row without a cell adds nothing.\<close>

fun key_value_pairs :: "pystr list list \<Rightarrow> kv_pair list" where
  "key_value_pairs [] = []"
| "key_value_pairs (row # rows) =
     (case row of
        k # v # _ \<Rightarrow> \<lparr>key = k, val = v\<rparr> # key_value_pairs rows
      | [k] \<Rightarrow> \<lparr>key = k, val = []\<rparr> # key_value_pairs rows
      | [] \<Rightarrow> key_value_pairs rows)"

definition column_label :: "nat \<Rightarrow> pystr" where
  "column_label n = show_nat n @ ustr ''_column''"

definition optimize_table_structure :: "pystr list list \<Rightarrow> structured_data" where
  "optimize_table_structure raw_data =
     (case raw_data of
        [] \<Rightarrow> Empty_table
      | first_row # rest \<Rightarrow>
          if max_cols raw_data = 2 then Key_value (ustr ''2_column'') (key_value_pairs raw_data)
          else if length raw_data > 0 then
            (if length raw_data > 1
             then Structured_table (column_label (max_cols raw_data)) first_row rest
             else Single_row (column_label (max_cols raw_data)) first_row)
          else Unknown_table raw_data)"


section \<open>Text cleaning for rendering: \<open>clean_text_for_pdf\<close>\<close>

definition is_surrogate :: "nat \<Rightarrow> bool" where
  "is_surrogate c \<longleftrightarrow> 55296 \<le> c \<and> c \<le> 57343"

text \<open>
  The loop over the characters: a surrogate is dropped, and so is a code point below 32
  other than tab (9), line feed (10) and carriage return (13).
\<close>

fun cleaned_chars :: "pystr \<Rightarrow> pystr" where
  "cleaned_chars [] = []"
| "cleaned_chars (c # cs) =
     (if is_surrogate c then cleaned_chars cs
      else if c < 32 \<and> c \<notin> {9, 10, 13} then cleaned_chars cs
      else c # cleaned_chars cs)"

definition clean_text_for_pdf :: "pystr \<Rightarrow> pystr" where
  "clean_text_for_pdf text =
     (if text = [] then []
      else strip (collapse_ws (cleaned_chars (filter (\<lambda>c. c \<noteq> 0) text))))"


section \<open>File names: \<open>_sanitize_filename\<close>\<close>

text \<open>
  The class \<open>\w\<close> of \<open>re\<close> on a \<open>str\<close> pattern: the ASCII letters, digits and the
  underscore, and beyond ASCII the code points Unicode classifies as alphanumeric. That
  classification is a table of the Python runtime; it is the parameter \<open>uni_alnum\<close>.
\<close>

definition is_word :: "(nat \<Rightarrow> bool) \<Rightarrow> nat \<Rightarrow> bool" where
  "is_word uni_alnum c \<longleftrightarrow>
     (48 \<le> c \<and> c \<le> 57) \<or> (65 \<le> c \<and> c \<le> 90) \<or> (97 \<le> c \<and> c \<le> 122) \<or> c = 95 \<or>
     (128 \<le> c \<and> uni_alnum c)"

text \<open>The characters of the class \<open>[<>:"/\\|?*]\<close>.\<close>

definition path_unsafe :: "nat \<Rightarrow> bool" where
  "path_unsafe c \<longleftrightarrow> c \<in> {60, 62, 58, 34, 47, 92, 124, 63, 42}"

text \<open>\<open>re.sub(r'_+', '_', s)\<close>: a run of underscores (95) becomes one underscore.\<close>

fun collapse_underscores :: "pystr \<Rightarrow> pystr" where
  "collapse_underscores [] = []"
| "collapse_underscores [c] = [c]"
| "collapse_underscores (c # d # cs) =
     (if c = 95 \<and> d = 95 then collapse_underscores (d # cs)
      else c # collapse_underscores (d # cs))"

text \<open>
  The class has two definitions of \<open>_sanitize_filename\<close>; the second one replaces the
  first, and it is the one modelled. The steps are the statements of the body, in their
  order.
\<close>

definition sanitize_filename :: "(nat \<Rightarrow> bool) \<Rightarrow> pystr \<Rightarrow> pystr" where
  "sanitize_filename uni_alnum filename =
     (if filename = [] then ustr ''unnamed''
      else
        let f1 = collapse_ws (strip filename);
            f2 = filter (\<lambda>c. c \<notin> {10, 13, 9}) f1;
            f3 = map (\<lambda>c. if path_unsafe c then 95 else c) f2;
            f4 = map (\<lambda>c. if \<not> (is_word uni_alnum c \<or> is_space c \<or> c = 45) then 95 else c) f3;
            f5 = collapse_underscores f4;
            f6 = map (\<lambda>c. if c = 32 then 95 else c) f5;
            f7 = strip_char 95 f6;
            f8 = take 50 f7
        in if f8 = [] then ustr ''unnamed'' else f8)"

section \<open>Geometry and text blocks\<close>

text \<open>
  Coordinates, font sizes and page dimensions are Python floats; they are modelled as
  rationals, on which the comparisons and the arithmetic of the code are exact. A bounding
  box is \<open>(x0, y0, x1, y1)\<close>.
\<close>

type_synonym bbox = "rat \<times> rat \<times> rat \<times> rat"

definition is_inside_bbox :: "bbox \<Rightarrow> bbox \<Rightarrow> bool" where
  "is_inside_bbox text_bbox table_bbox =
     (case text_bbox of (tx0, ty0, tx1, ty1) \<Rightarrow>
      case table_bbox of (rx0, ry0, rx1, ry1) \<Rightarrow>
        tx0 \<ge> rx0 \<and> tx1 \<le> rx1 \<and> ty0 \<ge> ry0 \<and> ty1 \<le> ry1)"

datatype ws_kind = Tab | Space

record span =
  sp_text :: pystr
  sp_bbox :: bbox
  sp_font :: pystr
  sp_size :: rat
  sp_flags :: nat
  sp_color :: nat

text \<open>The dictionary of a text block, one field per key.\<close>

record text_block =
  tb_id :: pystr
  tb_text :: pystr
  tb_x0 :: rat
  tb_y0 :: rat
  tb_x1 :: rat
  tb_y1 :: rat
  tb_font :: pystr
  tb_is_bold :: bool
  tb_size :: rat
  tb_spans :: "span list"
  tb_level :: int
  tb_parent_id :: "pystr option"
  tb_whitespace_info :: "(nat \<times> ws_kind) list"

section \<open>Hierarchy: \<open>_infer_hierarchy\<close>\<close>

text \<open>\<open>sorted(set(b["size"] for b in sorted_blocks), reverse=True)\<close>.\<close>

definition font_sizes_of :: "text_block list \<Rightarrow> rat list" where
  "font_sizes_of blocks = rev (sort (remdups (map tb_size blocks)))"

text \<open>\<open>xs.index(x)\<close> for an \<open>x\<close> that occurs in \<open>xs\<close>: the position of its first occurrence.\<close>

primrec list_index :: "'a list \<Rightarrow> 'a \<Rightarrow> nat" where
  "list_index [] x = 0"
| "list_index (y # ys) x = (if y = x then 0 else Suc (list_index ys x))"

text \<open>
  The level a block gets from its font size and boldness, before indentation is looked at.
\<close>

definition size_level :: "rat list \<Rightarrow> text_block \<Rightarrow> int" where
  "size_level font_sizes block =
     (let level =
        (if font_sizes \<noteq> [] then
           (if tb_size block \<in> set font_sizes then int (list_index font_sizes (tb_size block))
            else int (length font_sizes))
         else 0)
      in if tb_is_bold block then max 0 (level - 1) else level)"

text \<open>
  The loop over the sorted blocks; \<open>last_block\<close> is the block handled just before, with
  the level it was given (the code updates the dictionaries in place).
\<close>

fun infer_loop :: "rat list \<Rightarrow> text_block option \<Rightarrow> text_block list \<Rightarrow> text_block list" where
  "infer_loop font_sizes last_block [] = []"
| "infer_loop font_sizes last_block (block # rest) =
     (let level = size_level font_sizes block;
          block' =
            (case last_block of
               Some lb \<Rightarrow>
                 if tb_x0 block > tb_x0 lb + 5
                 then block\<lparr>tb_level := tb_level lb + 1, tb_parent_id := Some (tb_id lb)\<rparr>
                 else block\<lparr>tb_level := level, tb_parent_id := None\<rparr>
             | None \<Rightarrow> block\<lparr>tb_level := level, tb_parent_id := None\<rparr>)
      in block' # infer_loop font_sizes (Some block') rest)"

text \<open>\<open>sorted(text_blocks, key=lambda b: (b["y0"], b["x0"]))\<close>: a stable sort.\<close>

definition reading_order :: "text_block list \<Rightarrow> text_block list" where
  "reading_order blocks = sort_key (\<lambda>b. (tb_y0 b, tb_x0 b)) blocks"

definition infer_hierarchy :: "text_block list \<Rightarrow> text_block list" where
  "infer_hierarchy text_blocks =
     (if text_blocks = [] then []
      else let sorted_blocks = reading_order text_blocks
           in infer_loop (font_sizes_of sorted_blocks) None sorted_blocks)"

section \<open>Captions: \<open>_find_table_caption\<close> and \<open>_find_image_caption\<close>\<close>

text \<open>
  The caption patterns are \<open>^(Table|Figure|...|Fig\.)\s*\d+.*$\<close>, compiled with
  \<open>re.IGNORECASE\<close> and applied with \<open>match\<close>. A keyword is given in lower case;
  \<open>ci_match p c\<close> says that the character \<open>c\<close> matches the pattern letter \<open>p\<close> when case
  is ignored (for \<open>i\<close>, Python also accepts U+0130 and U+0131).
\<close>

definition ci_match :: "nat \<Rightarrow> nat \<Rightarrow> bool" where
  "ci_match p c \<longleftrightarrow>
     (if p = 105 then c \<in> {105, 73, 304, 305}
      else if 97 \<le> p \<and> p \<le> 122 then c = p \<or> c + 32 = p
      else c = p)"

text \<open>The rest of the string after the keyword, if the string starts with it.\<close>

fun match_keyword :: "nat list \<Rightarrow> pystr \<Rightarrow> pystr option" where
  "match_keyword [] s = Some s"
| "match_keyword (p # ps) [] = None"
| "match_keyword (p # ps) (c # cs) = (if ci_match p c then match_keyword ps cs else None)"

text \<open>
  The class \<open>\d\<close>: the ASCII digits and, beyond ASCII, the decimal digits of Unicode, a
  table of the Python runtime taken as the parameter \<open>uni_decimal\<close>.
\<close>

definition is_digit :: "(nat \<Rightarrow> bool) \<Rightarrow> nat \<Rightarrow> bool" where
  "is_digit uni_decimal c \<longleftrightarrow> (48 \<le> c \<and> c \<le> 57) \<or> (128 \<le> c \<and> uni_decimal c)"

text \<open>
  \<open>.*$\<close>: no line feed up to the end of the string, or up to a line feed that ends it.
\<close>

definition line_tail_ok :: "pystr \<Rightarrow> bool" where
  "line_tail_ok t \<longleftrightarrow> 10 \<notin> set t \<or> (t \<noteq> [] \<and> last t = 10 \<and> 10 \<notin> set (butlast t))"

text \<open>\<open>\s*\d+.*$\<close>: some of the leading whitespace, a digit, and the tail.\<close>

definition number_and_rest :: "(nat \<Rightarrow> bool) \<Rightarrow> pystr \<Rightarrow> bool" where
  "number_and_rest uni_decimal r =
     list_ex (\<lambda>k. k < length r \<and> is_digit uni_decimal (r ! k) \<and> line_tail_ok (drop (Suc k) r))
       [0 ..< Suc (length (takeWhile is_space r))]"

definition caption_match :: "nat list list \<Rightarrow> (nat \<Rightarrow> bool) \<Rightarrow> pystr \<Rightarrow> bool" where
  "caption_match keywords uni_decimal s =
     list_ex (\<lambda>kw. case match_keyword kw s of
                     None \<Rightarrow> False
                   | Some r \<Rightarrow> number_and_rest uni_decimal r) keywords"

text \<open>The Korean keyword is U+ADF8 U+B9BC.\<close>

definition table_keywords :: "nat list list" where
  "table_keywords = [ustr ''table'', ustr ''figure'', [44536, 47548], ustr ''fig.'']"

definition image_keywords :: "nat list list" where
  "image_keywords =
     [ustr ''figure'', ustr ''table'', [44536, 47548], ustr ''image'', ustr ''fig.'']"

record caption_candidate =
  cc_text :: pystr
  cc_normalized_text :: pystr
  cc_distance :: rat
  cc_x_distance :: rat
  cc_priority :: int
  cc_bbox :: bbox

text \<open>
  \<open>min(xs, key=f)\<close> on a list with first element \<open>best\<close>: a later element replaces the
  current one only when its key is strictly smaller.
\<close>

fun py_min_key :: "('a \<Rightarrow> 'k::linorder) \<Rightarrow> 'a \<Rightarrow> 'a list \<Rightarrow> 'a" where
  "py_min_key f best [] = best"
| "py_min_key f best (x # xs) = py_min_key f (if f x < f best then x else best) xs"

text \<open>
  One turn of the loop of \<open>_find_table_caption\<close>: \<open>None\<close> when the block is skipped by
  one of the \<open>continue\<close> statements, the candidate otherwise. \<open>threshold\<close> is
  \<open>proximity_threshold\<close>.
\<close>

definition table_candidate ::
  "(nat \<Rightarrow> bool) \<Rightarrow> rat \<Rightarrow> bbox \<Rightarrow> text_block \<Rightarrow> caption_candidate option" where
  "table_candidate uni_decimal threshold table_bbox block =
     (case table_bbox of (x0, y0, x1, y1) \<Rightarrow>
      let text = strip (tb_text block);
          table_center_x = (x0 + x1) / 2;
          block_center_x = (tb_x0 block + tb_x1 block) / 2;
          x_distance = \<bar>block_center_x - table_center_x\<bar>;
          y_distance = y0 - tb_y1 block;
          normalized_text = collapse_ws (strip text);
          priority = (if caption_match table_keywords uni_decimal normalized_text then - 1 else 0)
      in if text = [] then None
         else if \<not> tb_y1 block \<le> y0 then None
         else if x_distance > (x1 - x0) / 2 then None
         else if y_distance > threshold then None
         else Some \<lparr>cc_text = text, cc_normalized_text = normalized_text,
                     cc_distance = y_distance, cc_x_distance = x_distance,
                     cc_priority = (if tb_is_bold block then priority - 1 else priority),
                     cc_bbox = (tb_x0 block, tb_y0 block, tb_x1 block, tb_y1 block)\<rparr>)"

definition table_candidates ::
  "(nat \<Rightarrow> bool) \<Rightarrow> rat \<Rightarrow> bbox \<Rightarrow> text_block list \<Rightarrow> caption_candidate list" where
  "table_candidates uni_decimal page_height table_bbox text_blocks =
     List.map_filter (table_candidate uni_decimal (page_height * (15 / 100)) table_bbox) text_blocks"

definition table_key :: "caption_candidate \<Rightarrow> int \<times> rat \<times> rat" where
  "table_key c = (cc_priority c, cc_distance c, cc_x_distance c)"

definition find_table_caption ::
  "(nat \<Rightarrow> bool) \<Rightarrow> rat \<Rightarrow> text_block list \<Rightarrow> bbox \<Rightarrow> pystr option" where
  "find_table_caption uni_decimal page_height text_blocks table_bbox =
     (if text_blocks = [] then None
      else case table_candidates uni_decimal page_height table_bbox text_blocks of
             [] \<Rightarrow> None
           | c # cs \<Rightarrow> Some (cc_text (py_min_key table_key c cs)))"

text \<open>One turn of the loop of \<open>_find_image_caption\<close>.\<close>

definition image_candidate ::
  "(nat \<Rightarrow> bool) \<Rightarrow> rat \<Rightarrow> bbox list \<Rightarrow> bbox \<Rightarrow> text_block \<Rightarrow> caption_candidate option" where
  "image_candidate uni_decimal threshold table_bboxes image_bbox block =
     (case image_bbox of (x0, y0, x1, y1) \<Rightarrow>
      let text = strip (tb_text block);
          bb = (tb_x0 block, tb_y0 block, tb_x1 block, tb_y1 block);
          is_near_y =
            ((y0 - threshold \<le> tb_y1 block \<and> tb_y1 block \<le> y1 + threshold) \<or>
             (y0 - threshold \<le> tb_y0 block \<and> tb_y0 block \<le> y1 + threshold));
          distance = min \<bar>tb_y1 block - y0\<bar> \<bar>y1 - tb_y0 block\<bar>
      in if text = [] then None
         else if list_ex (is_inside_bbox bb) table_bboxes then None
         else if \<not> is_near_y then None
         else Some \<lparr>cc_text = text, cc_normalized_text = text,
                     cc_distance = distance, cc_x_distance = 0,
                     cc_priority = (if caption_match image_keywords uni_decimal text then - 1 else 0),
                     cc_bbox = bb\<rparr>)"

definition image_candidates ::
  "(nat \<Rightarrow> bool) \<Rightarrow> rat \<Rightarrow> bbox list \<Rightarrow> bbox \<Rightarrow> text_block list \<Rightarrow> caption_candidate list"
  where
  "image_candidates uni_decimal page_height table_bboxes image_bbox text_blocks =
     List.map_filter
       (image_candidate uni_decimal (page_height * (1 / 10)) table_bboxes image_bbox) text_blocks"

definition image_key :: "caption_candidate \<Rightarrow> int \<times> rat" where
  "image_key c = (cc_priority c, cc_distance c)"

definition find_image_caption ::
  "(nat \<Rightarrow> bool) \<Rightarrow> rat \<Rightarrow> text_block list \<Rightarrow> bbox list \<Rightarrow> bbox \<Rightarrow> pystr option" where
  "find_image_caption uni_decimal page_height text_blocks table_bboxes image_bbox =
     (if text_blocks = [] then None
      else case image_candidates uni_decimal page_height table_bboxes image_bbox text_blocks of
             [] \<Rightarrow> None
           | c # cs \<Rightarrow> Some (cc_text (py_min_key image_key c cs)))"

section \<open>Reconstruction: \<open>draw_tables_enhanced\<close> and \<open>render_text_enhanced\<close>\<close>

text \<open>
  The reconstructor reads the document from JSON. Of a table it reads the entries
  \<open>"bbox"\<close>, \<open>"image"\<close> and \<open>"cells"\<close>, each of which may be absent. Decoding and drawing
  the image are done by libraries; what the code does next depends only on their outcome:
  no base64 data (\<open>No_image\<close>), an exception while decoding or drawing (\<open>Bad_image\<close>), or
  an image of a given width and height in pixels that is drawn (\<open>Image\<close>).
\<close>

datatype table_image = No_image | Bad_image | Image nat nat

record doc_cell =
  dc_text :: pystr
  dc_bbox :: "rat list option"

record doc_table =
  dt_bbox :: "rat list option"
  dt_image :: table_image
  dt_cells :: "doc_cell list"

record doc_image =
  di_bbox :: "rat list"

record doc_page =
  dp_width :: rat
  dp_height :: rat
  dp_text_blocks :: "text_block list"
  dp_tables :: "doc_table list"
  dp_images :: "doc_image list"








text \<open>
  The local function \<open>is_inside_any_table_or_image_or_cell\<close>, with its default margin
  passed explicitly; \<open>boxes\<close> is \<open>table_boxes + cell_bboxes + image_boxes\<close>.
\<close>

fun is_inside_any_table_or_image_or_cell ::
  "rat list list \<Rightarrow> rat \<Rightarrow> rat \<Rightarrow> rat \<Rightarrow> rat \<Rightarrow> rat \<Rightarrow> bool" where
  "is_inside_any_table_or_image_or_cell [] x0 y0 x1 y1 margin = False"
| "is_inside_any_table_or_image_or_cell (box # boxes) x0 y0 x1 y1 margin =
     (case box of
        [bx0, by0, bx1, by1] \<Rightarrow>
          if x0 < bx1 + margin \<and> x1 > bx0 - margin \<and> y0 < by1 + margin \<and> y1 > by0 - margin
          then True
          else is_inside_any_table_or_image_or_cell boxes x0 y0 x1 y1 margin
      | _ \<Rightarrow> is_inside_any_table_or_image_or_cell boxes x0 y0 x1 y1 margin)"

text \<open>
  What \<open>render_text_enhanced\<close> does with one block: nothing when the block has no text;
  nothing when the block is found inside a table, cell or image (suppressed); nothing
  when the cleaned text is blank; otherwise the cleaned text is drawn at the block's
  position (the choice of the font and the wrapping are left out).
\<close>

datatype text_action = Skipped_no_text | Suppressed | Skipped_blank | Drawn pystr

definition image_boxes_of :: "doc_image list \<Rightarrow> rat list list" where
  "image_boxes_of images = map di_bbox (filter (\<lambda>img. length (di_bbox img) = 4) images)"

definition text_block_action :: "rat list list \<Rightarrow> text_block \<Rightarrow> text_action" where
  "text_block_action boxes blk =
     (if tb_text blk = [] then Skipped_no_text
      else if is_inside_any_table_or_image_or_cell boxes
                (tb_x0 blk) (tb_y0 blk) (tb_x1 blk) (tb_y1 blk) 1
      then Suppressed
      else let text = clean_text_for_pdf (tb_text blk)
           in if strip text = [] then Skipped_blank else Drawn text)"

definition render_text_enhanced ::
  "doc_page \<Rightarrow> rat list list \<times> rat list list \<Rightarrow> text_action list" where
  "render_text_enhanced page_info rendered_tables =
     (if dp_text_blocks page_info = [] then []
      else case rendered_tables of (table_boxes, cell_bboxes) \<Rightarrow>
        map (text_block_action (table_boxes @ cell_bboxes @ image_boxes_of (dp_images page_info)))
          (dp_text_blocks page_info))"




section \<open>Extraction of a page: text, tables, hierarchy\<close>

text \<open>
  What the two PDF libraries and the OCR engine return for a page is the input of the
  model. A call that may raise has an optional result, \<open>None\<close> standing for the exception
  the code catches: the blocks of \<open>get_text("rawdict")\<close> and of \<open>get_text("dict")\<close>, the
  text recognised by the OCR steps, the tables found by \<open>find_tables\<close>. For a table found,
  \<open>pt_bbox\<close> is \<open>None\<close> when it has no \<open>bbox\<close>, \<open>pt_image_saved\<close> says whether the
  rasterising and the writing of the image went through, and \<open>pt_extract\<close> is the grid of
  \<open>table.extract()\<close>.
\<close>

record raw_line =
  ln_bbox :: bbox
  ln_spans :: "span list"

record raw_block =
  blk_type :: nat
  blk_bbox :: bbox
  blk_lines :: "raw_line list"

record plumber_table =
  pt_bbox :: "bbox option"
  pt_image_saved :: bool
  pt_extract :: "pystr option list list option"

record page_source =
  ps_width :: rat
  ps_height :: rat
  ps_rawdict :: "raw_block list option"
  ps_dict :: "raw_block list option"
  ps_ocr :: "pystr option"
  ps_tables :: "plumber_table list option"

text \<open>
  The entries of a table and of \<open>page_data\<close> that the claims read. The path of the table
  image depends on the files already present and is left out, as are the images and the
  vector lines of the page.
\<close>

record table =
  t_id :: pystr
  t_bbox :: bbox
  t_caption :: "pystr option"
  t_raw_data :: "pystr list list"
  t_structured_data :: structured_data

record page_data =
  pd_page_number :: nat
  pd_width :: rat
  pd_height :: rat
  pd_text_blocks :: "text_block list"
  pd_tables :: "table list"
  pd_text :: pystr

subsection \<open>Helpers of the text assembler\<close>

text \<open>The positions of the spaces and tabs of a string, counted from \<open>i\<close>.\<close>

fun spaces_from :: "nat \<Rightarrow> pystr \<Rightarrow> (nat \<times> ws_kind) list" where
  "spaces_from i [] = []"
| "spaces_from i (c # cs) =
     (if c = 32 then (i, Space) # spaces_from (Suc i) cs
      else if c = 9 then (i, Tab) # spaces_from (Suc i) cs
      else spaces_from (Suc i) cs)"

text \<open>\<open>max(xs, key=f)\<close>: the first of the greatest elements.\<close>

fun py_max_key :: "('a \<Rightarrow> 'k::linorder) \<Rightarrow> 'a \<Rightarrow> 'a list \<Rightarrow> 'a" where
  "py_max_key f best [] = best"
| "py_max_key f best (x # xs) = py_max_key f (if f best < f x then x else best) xs"

text \<open>
  \<open>_get_main_font\<close>: the characters are counted per font in a dictionary, which keeps the
  order of first insertion.
\<close>

definition bump_count :: "pystr \<Rightarrow> nat \<Rightarrow> (pystr \<times> nat) list \<Rightarrow> (pystr \<times> nat) list" where
  "bump_count font n counts =
     (if font \<in> fst ` set counts
      then map (\<lambda>(f, c). if f = font then (f, c + n) else (f, c)) counts
      else counts @ [(font, n)])"

definition get_main_font :: "span list \<Rightarrow> pystr" where
  "get_main_font spans_info =
     (case fold (\<lambda>sp. bump_count (sp_font sp) (length (sp_text sp))) spans_info [] of
        [] \<Rightarrow> ustr ''Unknown''
      | c # cs \<Rightarrow> fst (py_max_key snd c cs))"

text \<open>
  \<open>"bold" in font.lower()\<close>. Only the ASCII capitals have \<open>b\<close>, \<open>o\<close>, \<open>l\<close> or \<open>d\<close> as
  their lower case, so lowering the ASCII letters decides the test.
\<close>

definition lower_ascii :: "nat \<Rightarrow> nat" where
  "lower_ascii c = (if 65 \<le> c \<and> c \<le> 90 then c + 32 else c)"

definition contains :: "pystr \<Rightarrow> pystr \<Rightarrow> bool" where
  "contains sub s = list_ex (\<lambda>k. take (length sub) (drop k s) = sub) [0 ..< Suc (length s)]"

definition name_is_bold :: "pystr \<Rightarrow> bool" where
  "name_is_bold font = contains (ustr ''bold'') (map lower_ascii font)"

text \<open>\<open>_check_bold\<close>: \<open>flags & 16\<close> is bit 4 of the flags.\<close>

definition check_bold :: "span list \<Rightarrow> bool" where
  "check_bold spans_info =
     list_ex (\<lambda>sp. (sp_flags sp div 16) mod 2 = 1 \<or> name_is_bold (sp_font sp)) spans_info"

definition get_average_size :: "span list \<Rightarrow> rat" where
  "get_average_size spans_info =
     (if spans_info = [] then 10
      else let total_size = sum_list (map (\<lambda>sp. sp_size sp * of_nat (length (sp_text sp))) spans_info);
               total_chars = sum_list (map (\<lambda>sp. length (sp_text sp)) spans_info)
           in if total_chars > 0 then total_size / of_nat total_chars else 10)"

text \<open>\<open>round(x, 1)\<close>: to one decimal, a tie going to the even neighbour.\<close>

definition round_half_even :: "rat \<Rightarrow> int" where
  "round_half_even q =
     (let f = \<lfloor>q\<rfloor>; d = q - of_int f
      in if d < 1 / 2 then f else if d > 1 / 2 then f + 1 else if even f then f else f + 1)"

definition round1 :: "rat \<Rightarrow> rat" where
  "round1 x = of_int (round_half_even (x * 10)) / 10"

text \<open>\<open>s.split('\n')\<close>, written for any separator.\<close>

fun split_on :: "nat \<Rightarrow> pystr \<Rightarrow> pystr list" where
  "split_on sep [] = [[]]"
| "split_on sep (c # cs) =
     (if c = sep then [] # split_on sep cs
      else (case split_on sep cs of
              [] \<Rightarrow> [[c]]
            | l # ls \<Rightarrow> (c # l) # ls))"

text \<open>The ids \<open>text_1_0\<close>, \<open>text_1_ocr_0\<close> and \<open>table_1_0\<close>: two numbers between fixed parts.\<close>

definition make_id :: "string \<Rightarrow> nat \<Rightarrow> string \<Rightarrow> nat \<Rightarrow> pystr" where
  "make_id head a middle b = ustr head @ show_nat a @ ustr middle @ show_nat b"

subsection \<open>\<open>extract_text_enhanced\<close>: the blocks of the page\<close>

text \<open>
  The loop over the lines of a block. \<open>spans_info\<close> and \<open>whitespace_info\<close> are set anew for
  each line, so after the loop they are those of the last line; they are the second and
  third component of the state, the first being \<open>block_lines\<close>.
\<close>

definition text_spans :: "raw_line \<Rightarrow> span list" where
  "text_spans line = filter (\<lambda>sp. sp_text sp \<noteq> []) (ln_spans line)"

fun lines_loop ::
  "(pystr \<times> bbox) list \<times> span list \<times> (nat \<times> ws_kind) list \<Rightarrow> raw_line list \<Rightarrow>
   (pystr \<times> bbox) list \<times> span list \<times> (nat \<times> ws_kind) list" where
  "lines_loop st [] = st"
| "lines_loop (block_lines, spans_info, whitespace_info) (line # lines) =
     (let spans_info = text_spans line;
          whitespace_info = concat (map (\<lambda>sp. spaces_from 0 (sp_text sp)) spans_info);
          line_texts = map sp_text spans_info
      in lines_loop
           ((if line_texts \<noteq> [] then block_lines @ [(concat line_texts, ln_bbox line)]
             else block_lines),
            spans_info, whitespace_info) lines)"

text \<open>
  The text of a block: the texts of its lines, with a line feed between two lines that are
  more than 2 apart (\<open>next_bbox[1] - curr_bbox[3] > 2\<close>).
\<close>

fun merged_text_of :: "(pystr \<times> bbox) list \<Rightarrow> pystr" where
  "merged_text_of [] = []"
| "merged_text_of [l] = fst l"
| "merged_text_of (l # l' # ls) =
     fst l @
     (case snd l of (_, _, _, cy1) \<Rightarrow>
      case snd l' of (_, ny0, _, _) \<Rightarrow> if ny0 - cy1 > 2 then [10] else []) @
     merged_text_of (l' # ls)"

text \<open>
  The loop over the blocks of the page. A block of another type than 0, a block inside a
  table box and a block without a line of text add nothing; \<open>block_idx\<close> counts the
  blocks added.
\<close>

fun blocks_loop :: "nat \<Rightarrow> bbox list \<Rightarrow> nat \<Rightarrow> raw_block list \<Rightarrow> text_block list" where
  "blocks_loop page_number table_bboxes block_idx [] = []"
| "blocks_loop page_number table_bboxes block_idx (block # blocks) =
     (if blk_type block \<noteq> 0 then blocks_loop page_number table_bboxes block_idx blocks
      else if list_ex (is_inside_bbox (blk_bbox block)) table_bboxes
      then blocks_loop page_number table_bboxes block_idx blocks
      else
        (case lines_loop ([], [], []) (blk_lines block) of
           (block_lines, spans_info, whitespace_info) \<Rightarrow>
             if block_lines = [] then blocks_loop page_number table_bboxes block_idx blocks
             else
               (case blk_bbox block of (bx0, by0, bx1, by1) \<Rightarrow>
                  \<lparr>tb_id = make_id ''text_'' page_number ''_'' block_idx,
                   tb_text = merged_text_of block_lines,
                   tb_x0 = bx0, tb_y0 = by0, tb_x1 = bx1, tb_y1 = by1,
                   tb_font = get_main_font spans_info,
                   tb_is_bold = check_bold spans_info,
                   tb_size = get_average_size spans_info,
                   tb_spans = spans_info,
                   tb_level = 0, tb_parent_id = None,
                   tb_whitespace_info = whitespace_info\<rparr>
                  # blocks_loop page_number table_bboxes (Suc block_idx) blocks)))"

subsection \<open>\<open>_merge_text_blocks\<close> and \<open>_merge_line_blocks\<close>\<close>

text \<open>
  \<open>_merge_line_blocks\<close>: the blocks of a line, sorted by \<open>x0\<close>, are merged from left to
  right while the gap to the block being built is at most 1.5 times half its font size.
\<close>

fun merge_run :: "text_block \<Rightarrow> text_block list \<Rightarrow> text_block list" where
  "merge_run current [] = [current]"
| "merge_run current (block # blocks) =
     (let gap = tb_x0 block - tb_x1 current;
          char_width = tb_size current * (1 / 2)
      in if gap \<le> char_width * (3 / 2)
         then merge_run
                (current\<lparr>tb_text := tb_text current @ [32] @ tb_text block,
                         tb_x1 := tb_x1 block,
                         tb_y1 := max (tb_y1 current) (tb_y1 block),
                         tb_whitespace_info :=
                           tb_whitespace_info current @ tb_whitespace_info block\<rparr>)
                blocks
         else current # merge_run block blocks)"

definition merge_line_blocks :: "text_block list \<Rightarrow> text_block list" where
  "merge_line_blocks line_blocks =
     (case sort_key tb_x0 line_blocks of
        [] \<Rightarrow> []
      | block # blocks \<Rightarrow> merge_run block blocks)"

text \<open>
  The grouping into lines: a block joins the current line when its \<open>y0\<close> is within 2 of
  the \<open>y0\<close> of the first block of that line; each line is merged when it is closed.
\<close>

fun group_loop :: "rat \<Rightarrow> text_block list \<Rightarrow> text_block list \<Rightarrow> text_block list" where
  "group_loop current_y current_line [] =
     (if current_line \<noteq> [] then merge_line_blocks current_line else [])"
| "group_loop current_y current_line (block # blocks) =
     (if \<bar>tb_y0 block - current_y\<bar> \<le> 2 then group_loop current_y (current_line @ [block]) blocks
      else (if current_line \<noteq> [] then merge_line_blocks current_line else []) @
           group_loop (tb_y0 block) [block] blocks)"

text \<open>The test for the end of a paragraph between a block and the block before it.\<close>

definition paragraph_break :: "text_block \<Rightarrow> text_block \<Rightarrow> bool" where
  "paragraph_break prev_block block \<longleftrightarrow>
     tb_y0 block - tb_y1 prev_block > 2 \<or> tb_size block \<noteq> tb_size prev_block \<or>
     tb_is_bold block \<noteq> tb_is_bold prev_block \<or> tb_level block \<noteq> tb_level prev_block"

fun newline_loop :: "text_block option \<Rightarrow> text_block list \<Rightarrow> text_block list" where
  "newline_loop prev_block [] = []"
| "newline_loop prev_block (block # blocks) =
     (let block' =
        (case prev_block of
           None \<Rightarrow> block
         | Some pb \<Rightarrow>
             if paragraph_break pb block then block\<lparr>tb_text := [10] @ tb_text block\<rparr> else block)
      in block' # newline_loop (Some block') blocks)"

definition merge_text_blocks :: "text_block list \<Rightarrow> text_block list" where
  "merge_text_blocks text_blocks =
     (if text_blocks = [] then []
      else case sort_key (\<lambda>b. (tb_y0 b, tb_x0 b)) text_blocks of
             [] \<Rightarrow> []
           | block # blocks \<Rightarrow> newline_loop None (group_loop (tb_y0 block) [block] blocks))"

text \<open>
  The text of the page: the texts of the blocks, with a line feed between two blocks
  where a paragraph ends.
\<close>

fun page_text_of :: "text_block list \<Rightarrow> pystr" where
  "page_text_of [] = []"
| "page_text_of [b] = tb_text b"
| "page_text_of (b # b' # bs) =
     tb_text b @ (if paragraph_break b b' then [10] else []) @ page_text_of (b' # bs)"

subsection \<open>OCR\<close>

text \<open>
  \<open>extract_text_ocr\<close>: its body is one \<open>try\<close> whose handler returns the empty string, so
  its result is a string whatever the OCR steps did.
\<close>

definition extract_text_ocr :: "pystr option \<Rightarrow> pystr" where
  "extract_text_ocr ocr_outcome = (case ocr_outcome of None \<Rightarrow> [] | Some text \<Rightarrow> text)"

text \<open>The blocks made from the lines of the OCR text; \<open>i\<close> is the number of the line.\<close>

fun ocr_blocks :: "nat \<Rightarrow> rat \<Rightarrow> rat \<Rightarrow> nat \<Rightarrow> pystr list \<Rightarrow> text_block list" where
  "ocr_blocks page_number width y_step i [] = []"
| "ocr_blocks page_number width y_step i (line # lines) =
     (if strip line \<noteq> [] then
        \<lparr>tb_id = make_id ''text_'' page_number ''_ocr_'' i,
         tb_text = strip line,
         tb_x0 = width / 2 - 100, tb_y0 = of_nat i * y_step,
         tb_x1 = width / 2 + 100, tb_y1 = (of_nat i + 1) * y_step,
         tb_font = ustr ''Unknown'', tb_is_bold = False, tb_size = 10, tb_spans = [],
         tb_level = 0, tb_parent_id = None,
         tb_whitespace_info = map (\<lambda>(j, k). (j, Space)) (spaces_from 0 line)\<rparr>
        # ocr_blocks page_number width y_step (Suc i) lines
      else ocr_blocks page_number width y_step (Suc i) lines)"

subsection \<open>\<open>extract_text_line_based\<close>: the fallback\<close>

text \<open>
  The loop over the spans of a line: the texts that are not empty, the whitespace
  positions, the box around all spans (\<open>None\<close> before the first span), the font of the
  first span and the greatest size.
\<close>

definition span_union :: "bbox option \<Rightarrow> bbox \<Rightarrow> bbox" where
  "span_union acc sb =
     (case acc of
        None \<Rightarrow> sb
      | Some (x0, y0, x1, y1) \<Rightarrow>
          (case sb of (sx0, sy0, sx1, sy1) \<Rightarrow> (min x0 sx0, min y0 sy0, max x1 sx1, max y1 sy1)))"

fun line_blocks_loop :: "nat \<Rightarrow> bbox list \<Rightarrow> nat \<Rightarrow> raw_line list \<Rightarrow> text_block list \<times> nat"
  where
  "line_blocks_loop page_number table_bboxes block_idx [] = ([], block_idx)"
| "line_blocks_loop page_number table_bboxes block_idx (line # lines) =
     (if list_ex (is_inside_bbox (ln_bbox line)) table_bboxes
      then line_blocks_loop page_number table_bboxes block_idx lines
      else
        (let line_strs = map sp_text (text_spans line);
             merged_text = concat (case line_strs of [] \<Rightarrow> []
                                   | s # ss \<Rightarrow> s # map (\<lambda>t. 32 # t) ss)
         in case (fold (\<lambda>sp acc. Some (span_union acc (sp_bbox sp))) (ln_spans line) None,
                  ln_spans line) of
              (Some (x0, y0, x1, y1), first_span # _) \<Rightarrow>
                if merged_text \<noteq> [] then
                  (case line_blocks_loop page_number table_bboxes (Suc block_idx) lines of
                     (rest, idx) \<Rightarrow>
                       (\<lparr>tb_id = make_id ''text_'' page_number ''_'' block_idx,
                         tb_text = merged_text,
                         tb_x0 = x0, tb_y0 = y0, tb_x1 = x1, tb_y1 = y1,
                         tb_font = sp_font first_span,
                         tb_is_bold = name_is_bold (sp_font first_span),
                         tb_size = fold (\<lambda>sp m. max m (sp_size sp)) (ln_spans line) 0,
                         tb_spans = [],
                         tb_level = 0, tb_parent_id = None,
                         tb_whitespace_info =
                           concat (map (\<lambda>sp. spaces_from 0 (sp_text sp)) (text_spans line))\<rparr>
                        # rest, idx))
                else line_blocks_loop page_number table_bboxes block_idx lines
            | _ \<Rightarrow> line_blocks_loop page_number table_bboxes block_idx lines))"

fun line_based_loop :: "nat \<Rightarrow> bbox list \<Rightarrow> nat \<Rightarrow> raw_block list \<Rightarrow> text_block list" where
  "line_based_loop page_number table_bboxes block_idx [] = []"
| "line_based_loop page_number table_bboxes block_idx (b # bs) =
     (if blk_type b = 0 then
        (case line_blocks_loop page_number table_bboxes block_idx (blk_lines b) of
           (found, idx) \<Rightarrow> found @ line_based_loop page_number table_bboxes idx bs)
      else line_based_loop page_number table_bboxes block_idx bs)"

text \<open>The removal of duplicates by the key \<open>(text, round(x0, 1), round(y0, 1))\<close>.\<close>

fun unique_loop :: "(pystr \<times> rat \<times> rat) list \<Rightarrow> text_block list \<Rightarrow> text_block list" where
  "unique_loop seen [] = []"
| "unique_loop seen (blk # blks) =
     (let k = (tb_text blk, round1 (tb_x0 blk), round1 (tb_y0 blk))
      in if k \<notin> set seen \<and> tb_text blk \<noteq> [] then blk # unique_loop (k # seen) blks
         else unique_loop seen blks)"

definition extract_text_line_based :: "page_source \<Rightarrow> page_data \<Rightarrow> page_data" where
  "extract_text_line_based src page =
     (case ps_dict src of
        None \<Rightarrow> page
      | Some blocks \<Rightarrow>
          let table_bboxes = map t_bbox (pd_tables page);
              text_blocks_line = line_based_loop (pd_page_number page) table_bboxes 0 blocks;
              unique_blocks = sort_key (\<lambda>b. (tb_y0 b, tb_x0 b)) (unique_loop [] text_blocks_line)
          in page\<lparr>pd_text_blocks := unique_blocks, pd_text := page_text_of unique_blocks\<rparr>)"

subsection \<open>\<open>extract_text_enhanced\<close>, \<open>extract_tables\<close> and the page loop of \<open>extract\<close>\<close>

text \<open>
  The blocks of the primary path, from the blocks of \<open>rawdict\<close>: built, merged, and sorted
  by the rounded \<open>(y0, x0)\<close>. The table boxes are those \<open>page_data\<close> holds when the
  function is called.
\<close>

definition merged_blocks_of :: "page_data \<Rightarrow> raw_block list \<Rightarrow> text_block list" where
  "merged_blocks_of page blocks =
     sort_key (\<lambda>b. (round1 (tb_y0 b), round1 (tb_x0 b)))
       (merge_text_blocks
          (blocks_loop (pd_page_number page) (map t_bbox (pd_tables page)) 0 blocks))"

definition extract_text_enhanced :: "page_source \<Rightarrow> page_data \<Rightarrow> page_data" where
  "extract_text_enhanced src page =
     (case ps_rawdict src of
        None \<Rightarrow> extract_text_line_based src page
      | Some blocks \<Rightarrow>
          let text_blocks = blocks_loop (pd_page_number page) (map t_bbox (pd_tables page)) 0 blocks;
              merged_blocks = merged_blocks_of page blocks;
              page = page\<lparr>pd_text_blocks := merged_blocks, pd_text := page_text_of merged_blocks\<rparr>
          in if merged_blocks = [] then
               (let ocr_text = extract_text_ocr (ps_ocr src)
                in if ocr_text \<noteq> [] then
                     (let lines = split_on 10 ocr_text;
                          y_step = pd_height page / of_nat (max 1 (length lines))
                      in page\<lparr>pd_text_blocks :=
                                 text_blocks @
                                 ocr_blocks (pd_page_number page) (pd_width page) y_step 0 lines,
                               pd_text := ocr_text\<rparr>)
                   else page)
             else page)"

text \<open>
  The loop over the tables found; \<open>t_idx\<close> counts all of them. A table without \<open>bbox\<close> is
  skipped, and so is one for which a step raises. The caption is looked up among the text
  blocks \<open>page_data\<close> holds at that moment.
\<close>

fun tables_loop ::
  "(nat \<Rightarrow> bool) \<Rightarrow> page_data \<Rightarrow> nat \<Rightarrow> nat \<Rightarrow> plumber_table list \<Rightarrow> table list" where
  "tables_loop uni_decimal page page_num t_idx [] = []"
| "tables_loop uni_decimal page page_num t_idx (tbl # tbls) =
     (case pt_bbox tbl of
        None \<Rightarrow> tables_loop uni_decimal page page_num (Suc t_idx) tbls
      | Some table_bbox \<Rightarrow>
          if \<not> pt_image_saved tbl then tables_loop uni_decimal page page_num (Suc t_idx) tbls
          else
            (case pt_extract tbl of
               None \<Rightarrow> tables_loop uni_decimal page page_num (Suc t_idx) tbls
             | Some raw_extracted_data \<Rightarrow>
                 (let cleaned_data = clean_table_data raw_extracted_data
                  in \<lparr>t_id = make_id ''table_'' page_num ''_'' t_idx,
                      t_bbox = table_bbox,
                      t_caption =
                        find_table_caption uni_decimal (pd_height page) (pd_text_blocks page)
                          table_bbox,
                      t_raw_data = cleaned_data,
                      t_structured_data = optimize_table_structure cleaned_data\<rparr>
                     # tables_loop uni_decimal page page_num (Suc t_idx) tbls)))"

definition extract_tables :: "(nat \<Rightarrow> bool) \<Rightarrow> page_source \<Rightarrow> nat \<Rightarrow> page_data \<Rightarrow> page_data" where
  "extract_tables uni_decimal src page_num page =
     (case ps_tables src of
        None \<Rightarrow> page
      | Some plumber_tables \<Rightarrow>
          page\<lparr>pd_tables := tables_loop uni_decimal page page_num 0 plumber_tables\<rparr>)"

text \<open>
  What \<open>extract\<close> does for the page with number \<open>i\<close>, in the order of its statements: the
  page data start empty, then the text is extracted, then the tables, then the hierarchy
  is inferred. (The metadata of the first page and the images of the other pages do not
  change the text blocks or the tables.)
\<close>

definition new_page_data :: "nat \<Rightarrow> page_source \<Rightarrow> page_data" where
  "new_page_data i src =
     \<lparr>pd_page_number = i, pd_width = ps_width src, pd_height = ps_height src,
      pd_text_blocks = [], pd_tables = [], pd_text = []\<rparr>"

definition extract_page :: "(nat \<Rightarrow> bool) \<Rightarrow> nat \<Rightarrow> page_source \<Rightarrow> page_data" where
  "extract_page uni_decimal i src =
     (let page_data = new_page_data i src;
          page_data = extract_text_enhanced src page_data;
          page_data = extract_tables uni_decimal src i page_data
      in page_data\<lparr>pd_text_blocks := infer_hierarchy (pd_text_blocks page_data)\<rparr>)"

text \<open>
  The method \<open>extract\<close> (the name is a keyword of Isabelle, hence \<open>extract_pages\<close>), for
  a document that could be opened: the pages are numbered from 1.
\<close>

definition extract_pages :: "(nat \<Rightarrow> bool) \<Rightarrow> page_source list \<Rightarrow> page_data list" where
  "extract_pages uni_decimal pages =
     map (\<lambda>(i, src). extract_page uni_decimal i src) (zip [1 ..< Suc (length pages)] pages)"

section \<open>Classification of grids\<close>

lemma sd_type_shape:
  "sd_type (optimize_table_structure g) =
     (if g = [] then ustr ''empty''
      else if max_cols g = 2 then ustr ''key_value''
      else if length g > 1 then ustr ''structured_table''
      else ustr ''single_row'')"
  by (cases g) (simp_all add: optimize_table_structure_def)

lemma max_cols_shape: "map length g = map length g' \<Longrightarrow> max_cols g = max_cols g'"
  by (simp add: max_cols_def)

lemma shape_Nil: "map length g = map length g' \<Longrightarrow> g = [] \<longleftrightarrow> g' = []"
  by (metis map_is_Nil_conv)

lemma shape_length: "map length g = map length g' \<Longrightarrow> length g = length g'"
  by (metis length_map)

text \<open>
  C2. The variant is decided by the shape of the grid alone, the number of columns being
  the length of the longest row: two columns and a row give the key-value variant; two
  rows or more and more than two columns the headered grid (\<open>structured_table\<close>, the
  first row as headers and the others as rows); one row of more than two columns the
  single row; the empty grid the empty variant. Two grids whose rows have the same
  lengths get the same variant.
\<close>

theorem classification_by_shape:
  "optimize_table_structure [] = Empty_table \<and>
   (g2 \<noteq> [] \<and> max_cols g2 = 2 \<longrightarrow>
      optimize_table_structure g2 = Key_value (ustr ''2_column'') (key_value_pairs g2)) \<and>
   (length g3 \<ge> 2 \<and> max_cols g3 > 2 \<longrightarrow>
      optimize_table_structure g3 =
        Structured_table (column_label (max_cols g3)) (hd g3) (tl g3)) \<and>
   (length g1 = 1 \<and> max_cols g1 > 2 \<longrightarrow>
      optimize_table_structure g1 = Single_row (column_label (max_cols g1)) (hd g1)) \<and>
   (map length g = map length g' \<longrightarrow>
      sd_type (optimize_table_structure g) = sd_type (optimize_table_structure g'))"
proof (intro conjI impI)
  show "optimize_table_structure [] = Empty_table"
    by (simp add: optimize_table_structure_def)
next
  assume "g2 \<noteq> [] \<and> max_cols g2 = 2"
  then show "optimize_table_structure g2 = Key_value (ustr ''2_column'') (key_value_pairs g2)"
    by (cases g2) (simp_all add: optimize_table_structure_def)
next
  assume "length g3 \<ge> 2 \<and> max_cols g3 > 2"
  then show "optimize_table_structure g3 =
      Structured_table (column_label (max_cols g3)) (hd g3) (tl g3)"
    by (cases g3) (auto simp add: optimize_table_structure_def)
next
  assume "length g1 = 1 \<and> max_cols g1 > 2"
  then show "optimize_table_structure g1 = Single_row (column_label (max_cols g1)) (hd g1)"
    by (cases g1) (auto simp add: optimize_table_structure_def)
next
  assume h: "map length g = map length g'"
  show "sd_type (optimize_table_structure g) = sd_type (optimize_table_structure g')"
    unfolding sd_type_shape using max_cols_shape [OF h] shape_Nil [OF h] shape_length [OF h]
    by simp
qed

theorem classification_by_shape_witness:
  "([[ustr ''a'', ustr ''b'']] \<noteq> [] \<and> max_cols [[ustr ''a'', ustr ''b'']] = 2) \<and>
   optimize_table_structure [[ustr ''a'', ustr ''b'']] =
     Key_value (ustr ''2_column'') (key_value_pairs [[ustr ''a'', ustr ''b'']]) \<and>
   (length [[ustr ''h'', ustr ''i'', ustr ''j''], [ustr ''x'']] \<ge> 2 \<and>
    max_cols [[ustr ''h'', ustr ''i'', ustr ''j''], [ustr ''x'']] > 2) \<and>
   optimize_table_structure [[ustr ''h'', ustr ''i'', ustr ''j''], [ustr ''x'']] =
     Structured_table (ustr ''3_column'') [ustr ''h'', ustr ''i'', ustr ''j''] [[ustr ''x'']] \<and>
   (length [[ustr ''p'', ustr ''q'', ustr ''r'']] = 1 \<and>
    max_cols [[ustr ''p'', ustr ''q'', ustr ''r'']] > 2) \<and>
   optimize_table_structure [[ustr ''p'', ustr ''q'', ustr ''r'']] =
     Single_row (ustr ''3_column'') [ustr ''p'', ustr ''q'', ustr ''r''] \<and>
   map length [[ustr ''a'', ustr ''b'']] = map length [[ustr ''c'', ustr ''dd'']] \<and>
   sd_type (optimize_table_structure [[ustr ''a'', ustr ''b'']]) =
     sd_type (optimize_table_structure [[ustr ''c'', ustr ''dd'']])"
  using classification_by_shape
    [of "[[ustr ''a'', ustr ''b'']]"
        "[[ustr ''h'', ustr ''i'', ustr ''j''], [ustr ''x'']]"
        "[[ustr ''p'', ustr ''q'', ustr ''r'']]"
        "[[ustr ''a'', ustr ''b'']]" "[[ustr ''c'', ustr ''dd'']]"]
  by (simp add: optimize_table_structure_def max_cols_def column_label_def show_nat.simps
      ustr_def)

text \<open>
  C3. The raw grid \<open>[["ID", "TE02.03.01"], ["Status", "Pass"]]\<close> is its own cleaned grid,
  and its structured data has the type \<open>key_value\<close> and the pairs (ID, TE02.03.01) and
  (Status, Pass), in this order.
\<close>

theorem scenario_key_value:
  "clean_table_data
     [[Some (ustr ''ID''), Some (ustr ''TE02.03.01'')],
      [Some (ustr ''Status''), Some (ustr ''Pass'')]] =
     [[ustr ''ID'', ustr ''TE02.03.01''], [ustr ''Status'', ustr ''Pass'']] \<and>
   optimize_table_structure [[ustr ''ID'', ustr ''TE02.03.01''], [ustr ''Status'', ustr ''Pass'']] =
     Key_value (ustr ''2_column'')
       [\<lparr>key = ustr ''ID'', val = ustr ''TE02.03.01''\<rparr>,
        \<lparr>key = ustr ''Status'', val = ustr ''Pass''\<rparr>] \<and>
   sd_type (optimize_table_structure
       [[ustr ''ID'', ustr ''TE02.03.01''], [ustr ''Status'', ustr ''Pass'']]) = ustr ''key_value''"
  by (simp add: optimize_table_structure_def max_cols_def ustr_def strip_def rstrip_def
      is_space_def)

section \<open>What \<open>clean_text_for_pdf\<close> returns\<close>





lemma cleaned_chars_filter:
  "cleaned_chars s = filter (\<lambda>c. \<not> is_surrogate c \<and> \<not> (c < 32 \<and> c \<notin> {9, 10, 13})) s"
  by (induction s) auto















section \<open>\<open>_sanitize_filename\<close> applied twice\<close>

text \<open>
  C7. Sanitizing is not idempotent. The runs of underscores are collapsed before the
  spaces become underscores, so an underscore next to a space (here the one that replaces
  the colon of \<open>Table 1: Results\<close>) leaves two underscores in the result, and a second
  call collapses them: the file name of the caption \<open>Table 1: Results\<close> is
  \<open>Table_1__Results\<close>, and sanitizing that name gives \<open>Table_1_Results\<close>. This holds
  whatever the Unicode table of alphanumeric characters is.
\<close>

theorem sanitize_filename_twice:
  "\<forall>uni_alnum.
     sanitize_filename uni_alnum (ustr ''Table 1: Results'') = ustr ''Table_1__Results'' \<and>
     sanitize_filename uni_alnum (ustr ''Table_1__Results'') = ustr ''Table_1_Results'' \<and>
     sanitize_filename uni_alnum (sanitize_filename uni_alnum (ustr ''Table 1: Results'')) \<noteq>
       sanitize_filename uni_alnum (ustr ''Table 1: Results'')"
  by (simp add: sanitize_filename_def ustr_def strip_def rstrip_def is_space_def collapse_ws_def
      path_unsafe_def is_word_def strip_char_def Let_def)

section \<open>Selection of a minimum and ranks of font sizes\<close>

lemma py_min_key_split:
  "\<exists>pre post. b # xs = pre @ py_min_key f b xs # post \<and>
     (\<forall>c\<in>set pre. f (py_min_key f b xs) < f c) \<and>
     (\<forall>c\<in>set post. f (py_min_key f b xs) \<le> f c)"
proof (induction xs arbitrary: b)
  case Nil
  show ?case by (intro exI [of _ "[]"]) simp
next
  case (Cons x xs)
  define b' where "b' = (if f x < f b then x else b)"
  define m where "m = py_min_key f b' xs"
  obtain pre post where s: "b' # xs = pre @ m # post"
    and lt: "\<forall>c\<in>set pre. f m < f c" and le: "\<forall>c\<in>set post. f m \<le> f c"
    using Cons.IH [of b'] unfolding m_def by blast
  have m: "py_min_key f b (x # xs) = m" by (simp add: m_def b'_def)
  have goal: "\<exists>pre post. b # x # xs = pre @ m # post \<and>
     (\<forall>c\<in>set pre. f m < f c) \<and> (\<forall>c\<in>set post. f m \<le> f c)"
  proof (cases "f x < f b")
    case True
    then have s': "x # xs = pre @ m # post" using s by (simp add: b'_def)
    have "f m \<le> f x"
    proof (cases pre)
      case Nil
      then have "x = m" using s' by simp
      then show ?thesis by simp
    next
      case (Cons p ps)
      then have "x \<in> set pre" using s' by simp
      then have "f m < f x" using lt by blast
      then show ?thesis by simp
    qed
    then have "f m < f b" using True by simp
    then have "\<forall>c\<in>set (b # pre). f m < f c" using lt by simp
    moreover have "b # x # xs = (b # pre) @ m # post" using s' by simp
    ultimately show ?thesis using le by blast
  next
    case False
    then have s': "b # xs = pre @ m # post" using s by (simp add: b'_def)
    show ?thesis
    proof (cases pre)
      case Nil
      then have mb: "m = b" and p: "post = xs" using s' by simp_all
      have "\<forall>c\<in>set (x # xs). f m \<le> f c" using le False mb p by auto
      moreover have "b # x # xs = [] @ m # (x # xs)" using mb by simp
      moreover have "\<forall>c\<in>set []. f m < f c" by simp
      ultimately show ?thesis by blast
    next
      case (Cons p ps)
      then have pb: "p = b" and xs: "xs = ps @ m # post" using s' by simp_all
      have mb: "f m < f b" using lt Cons pb by simp
      then have "f m < f x" using False by simp
      with mb have "\<forall>c\<in>set (b # x # ps). f m < f c" using lt Cons by simp
      moreover have "b # x # xs = (b # x # ps) @ m # post" using xs by simp
      ultimately show ?thesis using le by blast
    qed
  qed
  show ?case unfolding m by (rule goal)
qed

lemma list_index_desc:
  "sorted_wrt (\<lambda>a b. a > b) ys \<Longrightarrow> x \<in> set ys \<Longrightarrow>
     list_index ys x = card {z \<in> set ys. z > (x::'a::linorder)}"
proof (induction ys)
  case Nil
  then show ?case by simp
next
  case (Cons y ys)
  have above: "\<forall>z\<in>set ys. z < y" using Cons.prems(1) by simp
  show ?case
  proof (cases "y = x")
    case True
    have "{z \<in> set (y # ys). z > x} = {}" using above True by auto
    then show ?thesis using True by simp
  next
    case False
    then have xin: "x \<in> set ys" using Cons.prems(2) by simp
    then have yx: "x < y" using above by blast
    have ih: "list_index ys x = card {z \<in> set ys. z > x}"
      using Cons.IH Cons.prems(1) xin by simp
    have "{z \<in> set (y # ys). z > x} = insert y {z \<in> set ys. z > x}" using yx by auto
    moreover have "y \<notin> {z \<in> set ys. z > x}" using above by auto
    moreover have "finite {z \<in> set ys. z > x}" by simp
    ultimately have "card {z \<in> set (y # ys). z > x} = Suc (card {z \<in> set ys. z > x})"
      by (metis card_insert_disjoint)
    then show ?thesis using False ih by simp
  qed
qed

lemma font_sizes_desc: "sorted_wrt (\<lambda>a b. a > b) (font_sizes_of bs)"
proof -
  have "sorted_wrt (<) (sort (remdups (map tb_size bs)))"
    by (simp add: strict_sorted_iff)
  then show ?thesis unfolding font_sizes_of_def by (simp add: sorted_wrt_rev)
qed

lemma set_font_sizes: "set (font_sizes_of bs) = tb_size ` set bs"
  by (simp add: font_sizes_of_def)

lemma set_reading_order: "set (reading_order bs) = set bs"
  by (simp add: reading_order_def)

lemma length_reading_order: "length (reading_order bs) = length bs"
  by (simp add: reading_order_def)

lemma size_level_rank:
  assumes "b \<in> set bs"
  shows "size_level (font_sizes_of bs) b =
     (if tb_is_bold b then max 0 (int (card {z \<in> tb_size ` set bs. z > tb_size b}) - 1)
      else int (card {z \<in> tb_size ` set bs. z > tb_size b}))"
proof -
  have m: "tb_size b \<in> set (font_sizes_of bs)" using assms by (simp add: set_font_sizes)
  then have ne: "font_sizes_of bs \<noteq> []" by auto
  have "list_index (font_sizes_of bs) (tb_size b) =
      card {z \<in> set (font_sizes_of bs). z > tb_size b}"
    using list_index_desc [OF font_sizes_desc m] .
  then show ?thesis using m ne by (simp add: size_level_def set_font_sizes)
qed

lemma length_infer_loop: "length (infer_loop fs l bs) = length bs"
  by (induction bs arbitrary: l) (simp_all add: Let_def)

lemma infer_loop_nth:
  "i < length bs \<Longrightarrow>
   infer_loop fs l bs ! i =
     (case (if i = 0 then l else Some (infer_loop fs l bs ! (i - 1))) of
        Some lb \<Rightarrow>
          if tb_x0 (bs ! i) > tb_x0 lb + 5
          then (bs ! i)\<lparr>tb_level := tb_level lb + 1, tb_parent_id := Some (tb_id lb)\<rparr>
          else (bs ! i)\<lparr>tb_level := size_level fs (bs ! i), tb_parent_id := None\<rparr>
      | None \<Rightarrow> (bs ! i)\<lparr>tb_level := size_level fs (bs ! i), tb_parent_id := None\<rparr>)"
proof (induction bs arbitrary: l i)
  case Nil
  then show ?case by simp
next
  case (Cons b bs)
  show ?case
  proof (cases i)
    case 0
    then show ?thesis by (simp add: Let_def split: option.split)
  next
    case (Suc j)
    then have j: "j < length bs" using Cons.prems by simp
    show ?thesis
    proof (cases j)
      case 0
      with Suc j Cons.IH [OF j] show ?thesis by (simp add: Let_def)
    next
      case (Suc k)
      with \<open>i = Suc j\<close> j Cons.IH [OF j] show ?thesis by (simp add: Let_def)
    qed
  qed
qed

lemma infer_loop_keeps:
  "i < length bs \<Longrightarrow>
     \<exists>lv p. infer_loop fs l bs ! i = (bs ! i)\<lparr>tb_level := lv, tb_parent_id := p\<rparr>"
proof (induction bs arbitrary: l i)
  case Nil
  then show ?case by simp
next
  case (Cons b bs)
  show ?case
  proof (cases i)
    case 0
    show ?thesis
    proof (cases l)
      case None
      then show ?thesis using 0 by (simp add: Let_def) blast
    next
      case (Some lb)
      then show ?thesis using 0 by (cases "tb_x0 lb + 5 < tb_x0 b") (simp_all add: Let_def, blast+)
    qed
  next
    case (Suc j)
    then have "j < length bs" using Cons.prems by simp
    from Cons.IH [OF this] show ?thesis using Suc by (simp add: Let_def)
  qed
qed

section \<open>Levels and parents assigned by \<open>_infer_hierarchy\<close>\<close>

text \<open>
  C5. The blocks are handled in reading order (sorted by \<open>(y0, x0)\<close>), and only their
  level and parent change. A block that lies more than 5 units to the right of the block
  just before it gets that block's level plus one and that block's id as parent. Any
  other block (the first one included) gets no parent and the rank of its font size among
  the distinct sizes of the page in descending order, that is the number of distinct
  sizes larger than its own, lowered by one but not below 0 when the block is bold.
\<close>

theorem infer_hierarchy_levels:
  assumes "i < length bs"
  shows "length (infer_hierarchy bs) = length bs \<and>
    (\<exists>lv p. infer_hierarchy bs ! i = (reading_order bs ! i)\<lparr>tb_level := lv, tb_parent_id := p\<rparr>) \<and>
    (if 0 < i \<and> tb_x0 (reading_order bs ! i) > tb_x0 (reading_order bs ! (i - 1)) + 5
     then tb_level (infer_hierarchy bs ! i) = tb_level (infer_hierarchy bs ! (i - 1)) + 1 \<and>
          tb_parent_id (infer_hierarchy bs ! i) = Some (tb_id (reading_order bs ! (i - 1)))
     else tb_parent_id (infer_hierarchy bs ! i) = None \<and>
          tb_level (infer_hierarchy bs ! i) =
            (if tb_is_bold (reading_order bs ! i)
             then max 0 (int (card {z \<in> tb_size ` set bs. z > tb_size (reading_order bs ! i)}) - 1)
             else int (card {z \<in> tb_size ` set bs. z > tb_size (reading_order bs ! i)})))"
proof -
  define s where "s = reading_order bs"
  define fs where "fs = font_sizes_of s"
  define r where "r = infer_loop fs None s"
  have ne: "bs \<noteq> []" using assms by auto
  have r: "infer_hierarchy bs = r" using ne by (simp add: infer_hierarchy_def Let_def r_def fs_def s_def)
  have i: "i < length s" using assms by (simp add: length_reading_order s_def)
  have len: "length r = length bs" by (simp add: length_infer_loop length_reading_order r_def s_def)
  have mem: "s ! i \<in> set s" using i by simp
  have lvl: "size_level fs (s ! i) =
     (if tb_is_bold (s ! i) then max 0 (int (card {z \<in> tb_size ` set bs. z > tb_size (s ! i)}) - 1)
      else int (card {z \<in> tb_size ` set bs. z > tb_size (s ! i)}))"
    using size_level_rank [OF mem] by (simp add: set_reading_order fs_def s_def)
  have keeps: "\<exists>lv p. r ! i = (s ! i)\<lparr>tb_level := lv, tb_parent_id := p\<rparr>"
    unfolding r_def by (rule infer_loop_keeps [OF i])
  have nth: "r ! i =
     (case (if i = 0 then None else Some (r ! (i - 1))) of
        Some lb \<Rightarrow>
          if tb_x0 (s ! i) > tb_x0 lb + 5
          then (s ! i)\<lparr>tb_level := tb_level lb + 1, tb_parent_id := Some (tb_id lb)\<rparr>
          else (s ! i)\<lparr>tb_level := size_level fs (s ! i), tb_parent_id := None\<rparr>
      | None \<Rightarrow> (s ! i)\<lparr>tb_level := size_level fs (s ! i), tb_parent_id := None\<rparr>)"
    unfolding r_def by (rule infer_loop_nth [OF i])
  have body: "if 0 < i \<and> tb_x0 (s ! i) > tb_x0 (s ! (i - 1)) + 5
     then tb_level (r ! i) = tb_level (r ! (i - 1)) + 1 \<and>
          tb_parent_id (r ! i) = Some (tb_id (s ! (i - 1)))
     else tb_parent_id (r ! i) = None \<and> tb_level (r ! i) = size_level fs (s ! i)"
  proof (cases "i = 0")
    case True
    then show ?thesis using nth by simp
  next
    case False
    then have j: "i - 1 < length s" using i by simp
    obtain lv p where e: "r ! (i - 1) = (s ! (i - 1))\<lparr>tb_level := lv, tb_parent_id := p\<rparr>"
      using infer_loop_keeps [OF j, of fs None] unfolding r_def by blast
    have px: "tb_x0 (r ! (i - 1)) = tb_x0 (s ! (i - 1))" unfolding e by simp
    have pid: "tb_id (r ! (i - 1)) = tb_id (s ! (i - 1))" unfolding e by simp
    have nth': "r ! i =
       (if tb_x0 (s ! i) > tb_x0 (s ! (i - 1)) + 5
        then (s ! i)\<lparr>tb_level := tb_level (r ! (i - 1)) + 1,
                      tb_parent_id := Some (tb_id (s ! (i - 1)))\<rparr>
        else (s ! i)\<lparr>tb_level := size_level fs (s ! i), tb_parent_id := None\<rparr>)"
      using nth False px pid by simp
    show ?thesis
    proof (cases "tb_x0 (s ! i) > tb_x0 (s ! (i - 1)) + 5")
      case True
      then have "r ! i = (s ! i)\<lparr>tb_level := tb_level (r ! (i - 1)) + 1,
                      tb_parent_id := Some (tb_id (s ! (i - 1)))\<rparr>" using nth' by simp
      then have "tb_level (r ! i) = tb_level (r ! (i - 1)) + 1"
        "tb_parent_id (r ! i) = Some (tb_id (s ! (i - 1)))" by simp_all
      then show ?thesis using True False by simp
    next
      case F: False
      then have "r ! i = (s ! i)\<lparr>tb_level := size_level fs (s ! i), tb_parent_id := None\<rparr>"
        using nth' by simp
      then have "tb_level (r ! i) = size_level fs (s ! i)" "tb_parent_id (r ! i) = None"
        by simp_all
      then show ?thesis using F by simp
    qed
  qed
  show ?thesis unfolding r s_def [symmetric]
  proof (intro conjI)
    show "length r = length bs" by (rule len)
    show "\<exists>lv p. r ! i = (s ! i)\<lparr>tb_level := lv, tb_parent_id := p\<rparr>" by (rule keeps)
    show "if 0 < i \<and> tb_x0 (s ! i) > tb_x0 (s ! (i - 1)) + 5
     then tb_level (r ! i) = tb_level (r ! (i - 1)) + 1 \<and>
          tb_parent_id (r ! i) = Some (tb_id (s ! (i - 1)))
     else tb_parent_id (r ! i) = None \<and>
          tb_level (r ! i) =
            (if tb_is_bold (s ! i)
             then max 0 (int (card {z \<in> tb_size ` set bs. z > tb_size (s ! i)}) - 1)
             else int (card {z \<in> tb_size ` set bs. z > tb_size (s ! i)}))"
      using body unfolding lvl .
  qed
qed

theorem infer_hierarchy_levels_witness:
  "let bs =
     [\<lparr>tb_id = ustr ''c'', tb_text = ustr ''item'', tb_x0 = 30, tb_y0 = 50, tb_x1 = 100,
       tb_y1 = 60, tb_font = ustr ''F'', tb_is_bold = False, tb_size = 10, tb_spans = [],
       tb_level = 0, tb_parent_id = None, tb_whitespace_info = []\<rparr>,
      \<lparr>tb_id = ustr ''a'', tb_text = ustr ''Title'', tb_x0 = 10, tb_y0 = 10, tb_x1 = 100,
       tb_y1 = 20, tb_font = ustr ''F'', tb_is_bold = True, tb_size = 14, tb_spans = [],
       tb_level = 0, tb_parent_id = None, tb_whitespace_info = []\<rparr>,
      \<lparr>tb_id = ustr ''b'', tb_text = ustr ''body'', tb_x0 = 10, tb_y0 = 30, tb_x1 = 100,
       tb_y1 = 40, tb_font = ustr ''F'', tb_is_bold = False, tb_size = 12, tb_spans = [],
       tb_level = 0, tb_parent_id = None, tb_whitespace_info = []\<rparr>]
   in 2 < length bs \<and>
      tb_x0 (reading_order bs ! 2) > tb_x0 (reading_order bs ! (2 - 1)) + 5 \<and>
      length (infer_hierarchy bs) = 3 \<and>
      tb_level (infer_hierarchy bs ! 2) = tb_level (infer_hierarchy bs ! (2 - 1)) + 1 \<and>
      tb_parent_id (infer_hierarchy bs ! 2) = Some (ustr ''b'') \<and>
      map (\<lambda>b. (tb_id b, tb_level b, tb_parent_id b)) (infer_hierarchy bs) =
        [(ustr ''a'', 0, None), (ustr ''b'', 1, None), (ustr ''c'', 2, Some (ustr ''b''))]"
  using infer_hierarchy_levels [of 2
     "[\<lparr>tb_id = ustr ''c'', tb_text = ustr ''item'', tb_x0 = 30, tb_y0 = 50, tb_x1 = 100,
       tb_y1 = 60, tb_font = ustr ''F'', tb_is_bold = False, tb_size = 10, tb_spans = [],
       tb_level = 0, tb_parent_id = None, tb_whitespace_info = []\<rparr>,
      \<lparr>tb_id = ustr ''a'', tb_text = ustr ''Title'', tb_x0 = 10, tb_y0 = 10, tb_x1 = 100,
       tb_y1 = 20, tb_font = ustr ''F'', tb_is_bold = True, tb_size = 14, tb_spans = [],
       tb_level = 0, tb_parent_id = None, tb_whitespace_info = []\<rparr>,
      \<lparr>tb_id = ustr ''b'', tb_text = ustr ''body'', tb_x0 = 10, tb_y0 = 30, tb_x1 = 100,
       tb_y1 = 40, tb_font = ustr ''F'', tb_is_bold = False, tb_size = 12, tb_spans = [],
       tb_level = 0, tb_parent_id = None, tb_whitespace_info = []\<rparr>]"]
  by (simp add: infer_hierarchy_def reading_order_def font_sizes_of_def size_level_def Let_def
      ustr_def)

section \<open>Caption candidates\<close>





lemma find_table_caption_candidates:
  "find_table_caption ud h blocks tb =
     (case table_candidates ud h tb blocks of
        [] \<Rightarrow> None
      | c # cs \<Rightarrow> Some (cc_text (py_min_key table_key c cs)))"
  by (simp add: find_table_caption_def table_candidates_def)

lemma find_image_caption_candidates:
  "find_image_caption ud h blocks tbs ib =
     (case image_candidates ud h tbs ib blocks of
        [] \<Rightarrow> None
      | c # cs \<Rightarrow> Some (cc_text (py_min_key image_key c cs)))"
  by (simp add: find_image_caption_def image_candidates_def)

lemma first_minimum:
  assumes "cands \<noteq> []"
  shows "\<exists>pre m post. cands = pre @ m # post \<and>
     (case cands of [] \<Rightarrow> None | c # cs \<Rightarrow> Some (cc_text (py_min_key f c cs))) =
       Some (cc_text m) \<and>
     (\<forall>c\<in>set pre. f m < f c) \<and> (\<forall>c\<in>set post. f m \<le> f c)"
proof -
  obtain c cs where e: "cands = c # cs" using assms by (cases cands) auto
  obtain pre post where s: "c # cs = pre @ py_min_key f c cs # post"
    and lt: "\<forall>x\<in>set pre. f (py_min_key f c cs) < f x"
    and le: "\<forall>x\<in>set post. f (py_min_key f c cs) \<le> f x"
    using py_min_key_split [of c cs f] by blast
  have "(case c # cs of [] \<Rightarrow> None | c # cs \<Rightarrow> Some (cc_text (py_min_key f c cs))) =
      Some (cc_text (py_min_key f c cs))" by simp
  with s lt le show ?thesis unfolding e by blast
qed



text \<open>
  C6. The caption is a function of the list of candidates, which the blocks, the target
  box and the page height determine: equal lists of candidates give equal captions. No
  candidate means no caption; otherwise the caption is the text of the candidate whose
  ranking tuple is the least, and among several with the least tuple the first in the
  order of the input (every candidate before it has a strictly greater tuple). This holds
  for the captions of tables and of images.
\<close>

theorem caption_first_minimum:
  "(table_candidates ud h tb blocks = [] \<longrightarrow> find_table_caption ud h blocks tb = None) \<and>
   (table_candidates ud h tb blocks \<noteq> [] \<longrightarrow>
      (\<exists>pre m post. table_candidates ud h tb blocks = pre @ m # post \<and>
         find_table_caption ud h blocks tb = Some (cc_text m) \<and>
         (\<forall>c\<in>set pre. table_key m < table_key c) \<and>
         (\<forall>c\<in>set post. table_key m \<le> table_key c))) \<and>
   (table_candidates ud h tb blocks = table_candidates ud h' tb' blocks' \<longrightarrow>
      find_table_caption ud h blocks tb = find_table_caption ud h' blocks' tb') \<and>
   (image_candidates ud h tbs ib blocks = [] \<longrightarrow> find_image_caption ud h blocks tbs ib = None) \<and>
   (image_candidates ud h tbs ib blocks \<noteq> [] \<longrightarrow>
      (\<exists>pre m post. image_candidates ud h tbs ib blocks = pre @ m # post \<and>
         find_image_caption ud h blocks tbs ib = Some (cc_text m) \<and>
         (\<forall>c\<in>set pre. image_key m < image_key c) \<and>
         (\<forall>c\<in>set post. image_key m \<le> image_key c))) \<and>
   (image_candidates ud h tbs ib blocks = image_candidates ud h' tbs' ib' blocks' \<longrightarrow>
      find_image_caption ud h blocks tbs ib = find_image_caption ud h' blocks' tbs' ib')"
proof (intro conjI impI)
  assume "table_candidates ud h tb blocks = []"
  then show "find_table_caption ud h blocks tb = None"
    by (simp add: find_table_caption_candidates)
next
  assume "table_candidates ud h tb blocks \<noteq> []"
  from first_minimum [OF this, of table_key]
  show "\<exists>pre m post. table_candidates ud h tb blocks = pre @ m # post \<and>
         find_table_caption ud h blocks tb = Some (cc_text m) \<and>
         (\<forall>c\<in>set pre. table_key m < table_key c) \<and>
         (\<forall>c\<in>set post. table_key m \<le> table_key c)"
    unfolding find_table_caption_candidates .
next
  assume "table_candidates ud h tb blocks = table_candidates ud h' tb' blocks'"
  then show "find_table_caption ud h blocks tb = find_table_caption ud h' blocks' tb'"
    by (simp add: find_table_caption_candidates)
next
  assume "image_candidates ud h tbs ib blocks = []"
  then show "find_image_caption ud h blocks tbs ib = None"
    by (simp add: find_image_caption_candidates)
next
  assume "image_candidates ud h tbs ib blocks \<noteq> []"
  from first_minimum [OF this, of image_key]
  show "\<exists>pre m post. image_candidates ud h tbs ib blocks = pre @ m # post \<and>
         find_image_caption ud h blocks tbs ib = Some (cc_text m) \<and>
         (\<forall>c\<in>set pre. image_key m < image_key c) \<and>
         (\<forall>c\<in>set post. image_key m \<le> image_key c)"
    unfolding find_image_caption_candidates .
next
  assume "image_candidates ud h tbs ib blocks = image_candidates ud h' tbs' ib' blocks'"
  then show "find_image_caption ud h blocks tbs ib = find_image_caption ud h' blocks' tbs' ib'"
    by (simp add: find_image_caption_candidates)
qed

theorem caption_first_minimum_witness:
  "let h = \<lparr>tb_id = ustr ''t0'', tb_text = ustr ''Hello'', tb_x0 = 10, tb_y0 = 80, tb_x1 = 90, tb_y1 = 95, tb_font = ustr ''F'', tb_is_bold = False, tb_size = 10, tb_spans = [], tb_level = 0, tb_parent_id = None, tb_whitespace_info = []\<rparr>;
       w = \<lparr>tb_id = ustr ''t1'', tb_text = ustr ''World'', tb_x0 = 10, tb_y0 = 80, tb_x1 = 90, tb_y1 = 95, tb_font = ustr ''F'', tb_is_bold = False, tb_size = 10, tb_spans = [], tb_level = 0, tb_parent_id = None, tb_whitespace_info = []\<rparr>
   in table_candidates (\<lambda>_. False) 800 (0, 100, 100, 200) [h, w] \<noteq> [] \<and>
      map table_key (table_candidates (\<lambda>_. False) 800 (0, 100, 100, 200) [h, w]) =
        [(0, 5, 0), (0, 5, 0)] \<and>
      find_table_caption (\<lambda>_. False) 800 [h, w] (0, 100, 100, 200) = Some (ustr ''Hello'') \<and>
      find_table_caption (\<lambda>_. False) 800 [w, h] (0, 100, 100, 200) = Some (ustr ''World'') \<and>
      image_candidates (\<lambda>_. False) 800 [] (0, 100, 100, 200) [h, w] \<noteq> [] \<and>
      map image_key (image_candidates (\<lambda>_. False) 800 [] (0, 100, 100, 200) [h, w]) =
        [(0, 5), (0, 5)] \<and>
      find_image_caption (\<lambda>_. False) 800 [h, w] [] (0, 100, 100, 200) = Some (ustr ''Hello'') \<and>
      find_image_caption (\<lambda>_. False) 800 [w, h] [] (0, 100, 100, 200) = Some (ustr ''World'')"
  using caption_first_minimum [of "\<lambda>_. False" 800 "(0, 100, 100, 200)"
      "[\<lparr>tb_id = ustr ''t0'', tb_text = ustr ''Hello'', tb_x0 = 10, tb_y0 = 80, tb_x1 = 90, tb_y1 = 95, tb_font = ustr ''F'', tb_is_bold = False, tb_size = 10, tb_spans = [], tb_level = 0, tb_parent_id = None, tb_whitespace_info = []\<rparr>,
        \<lparr>tb_id = ustr ''t1'', tb_text = ustr ''World'', tb_x0 = 10, tb_y0 = 80, tb_x1 = 90, tb_y1 = 95, tb_font = ustr ''F'', tb_is_bold = False, tb_size = 10, tb_spans = [], tb_level = 0, tb_parent_id = None, tb_whitespace_info = []\<rparr>]"
      800 "(0, 100, 100, 200)"
      "[\<lparr>tb_id = ustr ''t0'', tb_text = ustr ''Hello'', tb_x0 = 10, tb_y0 = 80, tb_x1 = 90, tb_y1 = 95, tb_font = ustr ''F'', tb_is_bold = False, tb_size = 10, tb_spans = [], tb_level = 0, tb_parent_id = None, tb_whitespace_info = []\<rparr>,
        \<lparr>tb_id = ustr ''t1'', tb_text = ustr ''World'', tb_x0 = 10, tb_y0 = 80, tb_x1 = 90, tb_y1 = 95, tb_font = ustr ''F'', tb_is_bold = False, tb_size = 10, tb_spans = [], tb_level = 0, tb_parent_id = None, tb_whitespace_info = []\<rparr>]"
      "[]" "(0, 100, 100, 200)" "[]" "(0, 100, 100, 200)"]
  by (simp add: Let_def find_table_caption_def table_candidates_def table_candidate_def
      find_image_caption_def image_candidates_def image_candidate_def table_key_def image_key_def
      caption_match_def table_keywords_def image_keywords_def ci_match_def
      List.map_filter_def strip_def rstrip_def is_space_def collapse_ws_def ustr_def)

section \<open>Suppression of text blocks\<close>









lemma render_text_length:
  "length (render_text_enhanced p (tb, cb)) = length (dp_text_blocks p)"
  by (simp add: render_text_enhanced_def)







section \<open>OCR failure\<close>





section \<open>A text block inside a table\<close>

lemma example_block:
  "blocks_loop (Suc 0) [] 0 [\<lparr>blk_type = 0, blk_bbox = (10, 10, 50, 20), blk_lines = [\<lparr>ln_bbox = (10, 10, 50, 20), ln_spans = [\<lparr>sp_text = ustr ''ID'', sp_bbox = (10, 10, 50, 20), sp_font = ustr ''Arial'', sp_size = 10, sp_flags = 0, sp_color = 0\<rparr>]\<rparr>]\<rparr>] =
     [\<lparr>tb_id = ustr ''text_1_0'', tb_text = ustr ''ID'', tb_x0 = 10, tb_y0 = 10, tb_x1 = 50, tb_y1 = 20, tb_font = ustr ''Arial'', tb_is_bold = False, tb_size = 10, tb_spans = [\<lparr>sp_text = ustr ''ID'', sp_bbox = (10, 10, 50, 20), sp_font = ustr ''Arial'', sp_size = 10, sp_flags = 0, sp_color = 0\<rparr>], tb_level = 0, tb_parent_id = None, tb_whitespace_info = []\<rparr>]"
  by (simp add: text_spans_def get_main_font_def bump_count_def check_bold_def name_is_bold_def
      contains_def lower_ascii_def get_average_size_def make_id_def show_nat.simps ustr_def)

lemma example_merge:
  "merge_text_blocks [\<lparr>tb_id = ustr ''text_1_0'', tb_text = ustr ''ID'', tb_x0 = 10, tb_y0 = 10, tb_x1 = 50, tb_y1 = 20, tb_font = ustr ''Arial'', tb_is_bold = False, tb_size = 10, tb_spans = [\<lparr>sp_text = ustr ''ID'', sp_bbox = (10, 10, 50, 20), sp_font = ustr ''Arial'', sp_size = 10, sp_flags = 0, sp_color = 0\<rparr>], tb_level = 0, tb_parent_id = None, tb_whitespace_info = []\<rparr>] =
     [\<lparr>tb_id = ustr ''text_1_0'', tb_text = ustr ''ID'', tb_x0 = 10, tb_y0 = 10, tb_x1 = 50, tb_y1 = 20, tb_font = ustr ''Arial'', tb_is_bold = False, tb_size = 10, tb_spans = [\<lparr>sp_text = ustr ''ID'', sp_bbox = (10, 10, 50, 20), sp_font = ustr ''Arial'', sp_size = 10, sp_flags = 0, sp_color = 0\<rparr>], tb_level = 0, tb_parent_id = None, tb_whitespace_info = []\<rparr>]"
  by (simp add: merge_text_blocks_def merge_line_blocks_def)

lemma example_hierarchy:
  "infer_hierarchy [\<lparr>tb_id = ustr ''text_1_0'', tb_text = ustr ''ID'', tb_x0 = 10, tb_y0 = 10, tb_x1 = 50, tb_y1 = 20, tb_font = ustr ''Arial'', tb_is_bold = False, tb_size = 10, tb_spans = [\<lparr>sp_text = ustr ''ID'', sp_bbox = (10, 10, 50, 20), sp_font = ustr ''Arial'', sp_size = 10, sp_flags = 0, sp_color = 0\<rparr>], tb_level = 0, tb_parent_id = None, tb_whitespace_info = []\<rparr>] =
     [\<lparr>tb_id = ustr ''text_1_0'', tb_text = ustr ''ID'', tb_x0 = 10, tb_y0 = 10, tb_x1 = 50, tb_y1 = 20, tb_font = ustr ''Arial'', tb_is_bold = False, tb_size = 10, tb_spans = [\<lparr>sp_text = ustr ''ID'', sp_bbox = (10, 10, 50, 20), sp_font = ustr ''Arial'', sp_size = 10, sp_flags = 0, sp_color = 0\<rparr>], tb_level = 0, tb_parent_id = None, tb_whitespace_info = []\<rparr>]"
  by (simp add: infer_hierarchy_def reading_order_def font_sizes_of_def size_level_def)

lemma example_text:
  "extract_text_enhanced (\<lparr>ps_width = 600, ps_height = 800, ps_rawdict = Some [\<lparr>blk_type = 0, blk_bbox = (10, 10, 50, 20), blk_lines = [\<lparr>ln_bbox = (10, 10, 50, 20), ln_spans = [\<lparr>sp_text = ustr ''ID'', sp_bbox = (10, 10, 50, 20), sp_font = ustr ''Arial'', sp_size = 10, sp_flags = 0, sp_color = 0\<rparr>]\<rparr>]\<rparr>], ps_dict = None, ps_ocr = None, ps_tables = Some [\<lparr>pt_bbox = Some (0, 0, 100, 100), pt_image_saved = True, pt_extract = Some [[Some (ustr ''ID''), Some (ustr ''TE02.03.01'')], [Some (ustr ''Status''), Some (ustr ''Pass'')]]\<rparr>]\<rparr>)
     (\<lparr>pd_page_number = Suc 0, pd_width = 600, pd_height = 800, pd_text_blocks = [], pd_tables = [], pd_text = []\<rparr>) =
   \<lparr>pd_page_number = Suc 0, pd_width = 600, pd_height = 800, pd_text_blocks = [\<lparr>tb_id = ustr ''text_1_0'', tb_text = ustr ''ID'', tb_x0 = 10, tb_y0 = 10, tb_x1 = 50, tb_y1 = 20, tb_font = ustr ''Arial'', tb_is_bold = False, tb_size = 10, tb_spans = [\<lparr>sp_text = ustr ''ID'', sp_bbox = (10, 10, 50, 20), sp_font = ustr ''Arial'', sp_size = 10, sp_flags = 0, sp_color = 0\<rparr>], tb_level = 0, tb_parent_id = None, tb_whitespace_info = []\<rparr>], pd_tables = [], pd_text = ustr ''ID''\<rparr>"
  by (simp add: extract_text_enhanced_def merged_blocks_of_def Let_def example_block
      example_merge del: blocks_loop.simps)

lemma example_grid:
  "clean_table_data [[Some (ustr ''ID''), Some (ustr ''TE02.03.01'')], [Some (ustr ''Status''), Some (ustr ''Pass'')]] =
     [[ustr ''ID'', ustr ''TE02.03.01''], [ustr ''Status'', ustr ''Pass'']]"
  "optimize_table_structure [[ustr ''ID'', ustr ''TE02.03.01''], [ustr ''Status'', ustr ''Pass'']] =
     Key_value (ustr ''2_column'')
       [\<lparr>key = ustr ''ID'', val = ustr ''TE02.03.01''\<rparr>,
        \<lparr>key = ustr ''Status'', val = ustr ''Pass''\<rparr>]"
  by (simp_all add: optimize_table_structure_def max_cols_def ustr_def strip_def rstrip_def
      is_space_def)

lemma example_caption:
  "find_table_caption ud 800 [\<lparr>tb_id = ustr ''text_1_0'', tb_text = ustr ''ID'', tb_x0 = 10, tb_y0 = 10, tb_x1 = 50, tb_y1 = 20, tb_font = ustr ''Arial'', tb_is_bold = False, tb_size = 10, tb_spans = [\<lparr>sp_text = ustr ''ID'', sp_bbox = (10, 10, 50, 20), sp_font = ustr ''Arial'', sp_size = 10, sp_flags = 0, sp_color = 0\<rparr>], tb_level = 0, tb_parent_id = None, tb_whitespace_info = []\<rparr>] (0, 0, 100, 100) = None"
  by (simp add: find_table_caption_def table_candidates_def table_candidate_def Let_def
      List.map_filter_def)

lemma example_tables:
  "extract_tables ud (\<lparr>ps_width = 600, ps_height = 800, ps_rawdict = Some [\<lparr>blk_type = 0, blk_bbox = (10, 10, 50, 20), blk_lines = [\<lparr>ln_bbox = (10, 10, 50, 20), ln_spans = [\<lparr>sp_text = ustr ''ID'', sp_bbox = (10, 10, 50, 20), sp_font = ustr ''Arial'', sp_size = 10, sp_flags = 0, sp_color = 0\<rparr>]\<rparr>]\<rparr>], ps_dict = None, ps_ocr = None, ps_tables = Some [\<lparr>pt_bbox = Some (0, 0, 100, 100), pt_image_saved = True, pt_extract = Some [[Some (ustr ''ID''), Some (ustr ''TE02.03.01'')], [Some (ustr ''Status''), Some (ustr ''Pass'')]]\<rparr>]\<rparr>) (Suc 0)
     (\<lparr>pd_page_number = Suc 0, pd_width = 600, pd_height = 800, pd_text_blocks = [\<lparr>tb_id = ustr ''text_1_0'', tb_text = ustr ''ID'', tb_x0 = 10, tb_y0 = 10, tb_x1 = 50, tb_y1 = 20, tb_font = ustr ''Arial'', tb_is_bold = False, tb_size = 10, tb_spans = [\<lparr>sp_text = ustr ''ID'', sp_bbox = (10, 10, 50, 20), sp_font = ustr ''Arial'', sp_size = 10, sp_flags = 0, sp_color = 0\<rparr>], tb_level = 0, tb_parent_id = None, tb_whitespace_info = []\<rparr>], pd_tables = [], pd_text = ustr ''ID''\<rparr>) =
   \<lparr>pd_page_number = Suc 0, pd_width = 600, pd_height = 800, pd_text_blocks = [\<lparr>tb_id = ustr ''text_1_0'', tb_text = ustr ''ID'', tb_x0 = 10, tb_y0 = 10, tb_x1 = 50, tb_y1 = 20, tb_font = ustr ''Arial'', tb_is_bold = False, tb_size = 10, tb_spans = [\<lparr>sp_text = ustr ''ID'', sp_bbox = (10, 10, 50, 20), sp_font = ustr ''Arial'', sp_size = 10, sp_flags = 0, sp_color = 0\<rparr>], tb_level = 0, tb_parent_id = None, tb_whitespace_info = []\<rparr>], pd_tables = [\<lparr>t_id = ustr ''table_1_0'', t_bbox = (0, 0, 100, 100), t_caption = None, t_raw_data = [[ustr ''ID'', ustr ''TE02.03.01''], [ustr ''Status'', ustr ''Pass'']], t_structured_data = Key_value (ustr ''2_column'') [\<lparr>key = ustr ''ID'', val = ustr ''TE02.03.01''\<rparr>, \<lparr>key = ustr ''Status'', val = ustr ''Pass''\<rparr>]\<rparr>], pd_text = ustr ''ID''\<rparr>"
  by (simp add: extract_tables_def Let_def example_grid example_caption
      del: clean_table_data.simps) (simp add: make_id_def show_nat.simps ustr_def)

text \<open>
  C1. \<open>extract\<close> runs the text assembler on a page before the tables of that page are
  extracted, so the list of table boxes the assembler tests against is empty and no block
  is discarded. For a page with one text block at \<open>(10, 10, 50, 20)\<close> and one table
  detected at \<open>(0, 0, 100, 100)\<close>, the page that is recorded has the table and, among its
  text blocks, the block that lies fully inside the box of the table.
\<close>

theorem text_inside_table_kept:
  "(\<forall>ud. extract_page ud 1
      (\<lparr>ps_width = 600, ps_height = 800, ps_rawdict = Some [\<lparr>blk_type = 0, blk_bbox = (10, 10, 50, 20), blk_lines = [\<lparr>ln_bbox = (10, 10, 50, 20), ln_spans = [\<lparr>sp_text = ustr ''ID'', sp_bbox = (10, 10, 50, 20), sp_font = ustr ''Arial'', sp_size = 10, sp_flags = 0, sp_color = 0\<rparr>]\<rparr>]\<rparr>], ps_dict = None, ps_ocr = None, ps_tables = Some [\<lparr>pt_bbox = Some (0, 0, 100, 100), pt_image_saved = True, pt_extract = Some [[Some (ustr ''ID''), Some (ustr ''TE02.03.01'')], [Some (ustr ''Status''), Some (ustr ''Pass'')]]\<rparr>]\<rparr>) =
    \<lparr>pd_page_number = 1, pd_width = 600, pd_height = 800,
     pd_text_blocks = [\<lparr>tb_id = ustr ''text_1_0'', tb_text = ustr ''ID'', tb_x0 = 10, tb_y0 = 10, tb_x1 = 50, tb_y1 = 20, tb_font = ustr ''Arial'', tb_is_bold = False, tb_size = 10, tb_spans = [\<lparr>sp_text = ustr ''ID'', sp_bbox = (10, 10, 50, 20), sp_font = ustr ''Arial'', sp_size = 10, sp_flags = 0, sp_color = 0\<rparr>], tb_level = 0, tb_parent_id = None, tb_whitespace_info = []\<rparr>],
     pd_tables = [\<lparr>t_id = ustr ''table_1_0'', t_bbox = (0, 0, 100, 100), t_caption = None, t_raw_data = [[ustr ''ID'', ustr ''TE02.03.01''], [ustr ''Status'', ustr ''Pass'']], t_structured_data = Key_value (ustr ''2_column'') [\<lparr>key = ustr ''ID'', val = ustr ''TE02.03.01''\<rparr>, \<lparr>key = ustr ''Status'', val = ustr ''Pass''\<rparr>]\<rparr>],
     pd_text = ustr ''ID''\<rparr>) \<and>
   is_inside_bbox (10, 10, 50, 20) (0, 0, 100, 100)"
  by (simp add: extract_page_def new_page_data_def Let_def example_text example_tables
      example_hierarchy is_inside_bbox_def)

end
